theory Spec2Isabelle
  imports Main "HOL-Library.Sublist"
begin

section \<open>Strings, regular expressions and paths of \<open>bin/cm.js\<close>\<close>

text \<open>
  JavaScript strings are modelled as \<^typ>\<open>string\<close>, and a value that may be
  \<open>null\<close> or \<open>undefined\<close> as an option. Such a value is truthy when it is a
  non-empty string.
\<close>

definition js_truthy :: "string option \<Rightarrow> bool" where
  "js_truthy v = (case v of None \<Rightarrow> False | Some s \<Rightarrow> s \<noteq> [])"

text \<open>
  The regular-expression class \<open>\w\<close> (no unicode flag) is the ASCII letters, the digits
  and the underscore.
\<close>

definition word_char :: "char \<Rightarrow> bool" where
  "word_char c =
     (let n = (of_char c :: nat)
      in (48 \<le> n \<and> n \<le> 57) \<or> (65 \<le> n \<and> n \<le> 90) \<or> n = 95 \<or> (97 \<le> n \<and> n \<le> 122))"

text \<open>
  The test \<open>/^(\.?\/|\w:)/.test(id)\<close> of \<open>external\<close>: an optional dot and a slash, or
  a word character and a colon, at the start of the string.
\<close>

fun path_re_test :: "string \<Rightarrow> bool" where
  "path_re_test (c1 # c2 # rest) =
     ((c1 = CHR ''.'' \<and> c2 = CHR ''/'') \<or> c1 = CHR ''/'' \<or> (word_char c1 \<and> c2 = CHR '':''))"
| "path_re_test [c1] = (c1 = CHR ''/'')"
| "path_re_test [] = False"

text \<open>
  The test \<open>/^[^.]+\.ts$/.test(f)\<close> of the \<open>Pkg\<close> constructor: one or more characters
  other than a dot, then \<open>.ts\<close>, then the end of the string. The greedy \<open>[^.]+\<close> stops
  at the first dot, and giving characters back never helps, since the next character
  has to be a dot.
\<close>

definition ts_file_re_test :: "string \<Rightarrow> bool" where
  "ts_file_re_test f \<longleftrightarrow>
     takeWhile (\<lambda>c. c \<noteq> CHR ''.'') f \<noteq> [] \<and> dropWhile (\<lambda>c. c \<noteq> CHR ''.'') f = ''.ts''"

text \<open>\<open>name.replace(/^(theme-|lang-)/, "")\<close>: one leading \<open>theme-\<close> or \<open>lang-\<close> is removed.\<close>

definition strip_kind_prefix :: "string \<Rightarrow> string" where
  "strip_kind_prefix n =
     (if prefix ''theme-'' n then drop 6 n else if prefix ''lang-'' n then drop 5 n else n)"

text \<open>\<open>s.replace(/\.ts$/, r)\<close>: a final \<open>.ts\<close> is replaced by \<open>r\<close>.\<close>

definition replace_ts_suffix :: "string \<Rightarrow> string \<Rightarrow> string" where
  "replace_ts_suffix s r = (if suffix ''.ts'' s then take (length s - 3) s @ r else s)"

text \<open>
  \<open>/^@codemirror\/(\w+)$/.exec(name)\<close> of \<open>customResolve\<close>; the result is the capture
  group \<open>cm[1]\<close>, or \<open>None\<close> when the expression does not match.
\<close>

definition cm_re_exec :: "string \<Rightarrow> string option" where
  "cm_re_exec n =
     (if take 12 n = ''@codemirror/'' \<and> drop 12 n \<noteq> [] \<and> list_all word_char (drop 12 n)
      then Some (drop 12 n) else None)"

text \<open>
  \<open>path.join\<close> puts a separator between its arguments and normalises the result. The
  arguments joined in this program are an absolute normalised root, package names,
  \<open>src\<close>, \<open>dist\<close>, \<open>demo\<close> and file names, on which normalisation changes nothing, so
  only the separators are modelled. \<open>path.dirname\<close> drops the last segment.
\<close>

fun join :: "string list \<Rightarrow> string" where
  "join [] = ''.''"
| "join [s] = s"
| "join (s # ss) = s @ ''/'' @ join ss"

definition dirname :: "string \<Rightarrow> string" where
  "dirname p =
     (let r = dropWhile (\<lambda>c. c \<noteq> CHR ''/'') (rev p)
      in if r = [] then ''.'' else if tl r = [] then ''/'' else rev (tl r))"

section \<open>Exceptions, effects and outcomes\<close>

datatype exn = Error string | TypeError string | SystemError string

datatype event =
    ConsoleLog string
  | ConsoleInfo string
  | ConsoleWarn string
  | ConsoleError string
  | Rollup string string
  | Mkdir string
  | WriteFile string string

text \<open>The effects of the bundle stage: a call of the bundler and a write to the disk.\<close>

fun is_bundle_event :: "event \<Rightarrow> bool" where
  "is_bundle_event (Rollup i f) = True"
| "is_bundle_event (Mkdir d) = True"
| "is_bundle_event (WriteFile f t) = True"
| "is_bundle_event e = False"

text \<open>
  A run of a piece of the script is the list of the effects it had, in order, and how it
  ended: it returned, it called \<open>process.exit\<close>, or it threw. \<open>Rollup i f\<close> is the call
  of the bundler on the descriptor with input \<open>i\<close> and output file \<open>f\<close>.
\<close>

datatype outcome = Returned | Exited nat | Thrown exn

type_synonym run = "event list \<times> outcome"

definition then_run :: "run \<Rightarrow> run \<Rightarrow> run" where
  "then_run a b = (case snd a of Returned \<Rightarrow> (fst a @ fst b, snd b) | _ \<Rightarrow> a)"

definition exn_text :: "exn \<Rightarrow> string" where
  "exn_text e = (case e of Error m \<Rightarrow> ''Error: '' @ m | TypeError m \<Rightarrow> ''TypeError: '' @ m
                 | SystemError m \<Rightarrow> ''Error: '' @ m)"

text \<open>\<open>function error(err) { console.error(err); process.exit(1) }\<close>\<close>

definition error :: "string \<Rightarrow> run" where
  "error err = ([ConsoleError err], Exited 1)"

section \<open>The package registry\<close>

record Pkg =
  name :: string
  dir :: string
  main :: "string option"

text \<open>
  What the script reads of its surroundings: its root directory, the file system and the
  environment variable \<open>OPEN\<close>. \<open>readdirSync\<close> throws when the directory cannot be read.
\<close>

record world =
  root :: string
  readdirSync :: "string \<Rightarrow> exn + string list"
  existsSync :: "string \<Rightarrow> bool"
  env_OPEN :: "string option"

definition new_Pkg :: "world \<Rightarrow> string \<Rightarrow> exn + Pkg" where
  "new_Pkg w n =
     (let d = join [root w, n] in
      if n \<noteq> ''legacy-modes'' then
        (case readdirSync w (join [d, ''src'']) of
           Inl e \<Rightarrow> Inl e
         | Inr listing \<Rightarrow>
             (let files = filter ts_file_re_test listing;
                  m = (if length files = 1 then Some (hd files)
                       else if ''index.ts'' \<in> set files then Some ''index.ts''
                       else if strip_kind_prefix n @ ''.ts'' \<in> set files
                         then Some (strip_kind_prefix n @ ''.ts'')
                       else None)
              in case m of
                   None \<Rightarrow> Inl (Error (''Couldn't find a main script for '' @ n))
                 | Some f \<Rightarrow>
                     if f = [] then Inl (Error (''Couldn't find a main script for '' @ n))
                     else Inr \<lparr>name = n, dir = d, main = Some (join [d, ''src'', f])\<rparr>))
      else Inr \<lparr>name = n, dir = d, main = None\<rparr>)"

definition core_names :: "string list" where
  "core_names =
     [''state'', ''text'', ''view'', ''commands'', ''history'', ''collab'', ''gutter'',
      ''rangeset'', ''language'', ''language-data'', ''fold'', ''matchbrackets'',
      ''closebrackets'', ''panel'', ''tooltip'', ''search'', ''lint'', ''highlight'',
      ''stream-parser'', ''autocomplete'', ''comment'', ''rectangular-selection'',
      ''basic-setup'']"

definition nonCore_names :: "string list" where
  "nonCore_names =
     [''lang-javascript'', ''lang-java'', ''lang-json'', ''lang-cpp'', ''lang-python'',
      ''lang-css'', ''lang-html'', ''lang-sql'', ''lang-rust'', ''lang-xml'',
      ''lang-markdown'', ''legacy-modes'', ''theme-one-dark'']"

text \<open>\<open>names.map(n => new Pkg(n))\<close>: the first constructor that throws ends the map.\<close>

fun map_exn :: "('a \<Rightarrow> exn + 'b) \<Rightarrow> 'a list \<Rightarrow> exn + 'b list" where
  "map_exn f [] = Inr []"
| "map_exn f (x # xs) =
     (case f x of
        Inl e \<Rightarrow> Inl e
      | Inr y \<Rightarrow> (case map_exn f xs of Inl e \<Rightarrow> Inl e | Inr ys \<Rightarrow> Inr (y # ys)))"

record registry =
  packages :: "Pkg list"
  buildPackages :: "Pkg list"
  packageNames :: "string \<rightharpoonup> Pkg"

text \<open>
  The module-level statements that build \<open>core\<close>, \<open>nonCore\<close>, \<open>packages\<close>,
  \<open>buildPackages\<close> and \<open>packageNames\<close>. \<open>packageNames\<close> starts from
  \<open>Object.create(null)\<close>, so it has no inherited keys.
\<close>

definition load_registry :: "world \<Rightarrow> exn + registry" where
  "load_registry w =
     (case map_exn (new_Pkg w) core_names of
        Inl e \<Rightarrow> Inl e
      | Inr core \<Rightarrow>
          (case map_exn (new_Pkg w) nonCore_names of
             Inl e \<Rightarrow> Inl e
           | Inr nonCore \<Rightarrow>
               (let ps = core @ nonCore
                in Inr \<lparr>packages = ps,
                        buildPackages = filter (\<lambda>p. js_truthy (main p)) ps,
                        packageNames = fold (\<lambda>p m. m(name p \<mapsto> p)) ps Map.empty\<rparr>)))"

section \<open>The module resolver override\<close>

record resolved_module =
  resolvedFileName :: "string option"
  isExternalLibraryImport :: bool

text \<open>
  \<open>customResolve\<close> installs \<open>host.resolveModuleNames\<close>; the model is that hook. The
  first argument is \<open>packageNames\<close>, the second is \<open>ts.resolveModuleName\<close> followed by
  \<open>.resolvedModule\<close> (with the options and the host it is handed, which the hook passes
  on as they are), \<open>None\<close> for \<open>undefined\<close>.
\<close>

definition customResolve ::
  "(string \<rightharpoonup> Pkg) \<Rightarrow> (string \<Rightarrow> string \<Rightarrow> resolved_module option) \<Rightarrow>
   string list \<Rightarrow> string \<Rightarrow> resolved_module option list" where
  "customResolve pkgNames ts_resolveModuleName names parent =
     map (\<lambda>n.
        (case (case cm_re_exec n of None \<Rightarrow> None | Some g \<Rightarrow> pkgNames g) of
           Some pkg \<Rightarrow> Some \<lparr>resolvedFileName = main pkg, isExternalLibraryImport = False\<rparr>
         | None \<Rightarrow> ts_resolveModuleName n parent)) names"

section \<open>The bundle stage: externality predicate\<close>

text \<open>\<open>function external(id) { return id != "tslib" && !/^(\.?\/|\w:)/.test(id) }\<close>\<close>

definition external :: "string \<Rightarrow> bool" where
  "external i \<longleftrightarrow> i \<noteq> ''tslib'' \<and> \<not> path_re_test i"

section \<open>The bundle stage: descriptors and writing\<close>

record warning =
  warning_code :: "string option"
  warning_message :: string

record output_options =
  format :: string
  out_file :: string
  sourcemap :: bool
  externalLiveBindings :: "bool option"

text \<open>
  A bundle descriptor. \<open>config_onwarn\<close> is \<open>None\<close> where the descriptor has no handler (the
  bundler then reports every warning itself); a handler is modelled by the list of the
  warnings it hands to \<open>warn\<close>.
\<close>

record rollup_config =
  config_input :: string
  config_external :: "string \<Rightarrow> bool"
  config_output :: output_options
  config_plugins :: "string list"
  config_onwarn :: "(warning \<Rightarrow> warning list) option"

text \<open>
  \<open>pkg.main.replace(...)\<close> throws a TypeError when \<open>pkg.main\<close> is \<open>null\<close>.
\<close>

definition rollupConfig :: "Pkg \<Rightarrow> exn + rollup_config" where
  "rollupConfig pkg =
     (case main pkg of
        None \<Rightarrow> Inl (TypeError ''Cannot read property 'replace' of null'')
      | Some m \<Rightarrow>
          Inr \<lparr>config_input = replace_ts_suffix m ''.js'',
               config_external = external,
               config_output = \<lparr>format = ''esm'', out_file = join [dir pkg, ''dist'', ''index.js''],
                         sourcemap = True, externalLiveBindings = Some False\<rparr>,
               config_plugins = [''lezer''],
               config_onwarn = None\<rparr>)"

text \<open>
  \<open>onwarn(warning, warn) { if (warning.code != "CIRCULAR_DEPENDENCY" &&
  warning.code != "UNUSED_EXTERNAL_IMPORT") warn(warning) }\<close>
\<close>

definition decl_onwarn :: "warning \<Rightarrow> warning list" where
  "decl_onwarn w =
     (if warning_code w \<noteq> Some ''CIRCULAR_DEPENDENCY'' \<and>
         warning_code w \<noteq> Some ''UNUSED_EXTERNAL_IMPORT''
      then [w] else [])"

definition rollupDeclConfig :: "Pkg \<Rightarrow> exn + rollup_config" where
  "rollupDeclConfig pkg =
     (case main pkg of
        None \<Rightarrow> Inl (TypeError ''Cannot read property 'replace' of null'')
      | Some m \<Rightarrow>
          Inr \<lparr>config_input = replace_ts_suffix m ''.d.ts'',
               config_external = external,
               config_output = \<lparr>format = ''esm'', out_file = join [dir pkg, ''dist'', ''index.d.ts''],
                         sourcemap = False, externalLiveBindings = None\<rparr>,
               config_plugins = [''dts''],
               config_onwarn = Some decl_onwarn\<rparr>)"

text \<open>
  One file of the bundler's result: \<open>code\<close> of a chunk or \<open>source\<close> of an asset, and
  the text of its source map when it has one.
\<close>

record output_file =
  fileName :: string
  code :: "string option"
  source :: "string option"
  file_map :: "string option"

text \<open>\<open>file.code || file.source\<close>\<close>

definition file_content :: "output_file \<Rightarrow> string option" where
  "file_content f = (if js_truthy (code f) then code f else source f)"

text \<open>
  The inner loop of \<open>runRollup\<close>. \<open>writeFile\<close> rejects data that is \<open>undefined\<close>;
  failures of the file system itself are not modelled.
\<close>

fun write_outputs :: "string \<Rightarrow> output_file list \<Rightarrow> run" where
  "write_outputs d [] = ([], Returned)"
| "write_outputs d (f # fs) =
     then_run
       (case file_content f of
          None \<Rightarrow> ([], Thrown (TypeError ''The data argument must be of type string''))
        | Some text \<Rightarrow>
            (WriteFile (join [d, fileName f]) text #
               (case file_map f of
                  None \<Rightarrow> []
                | Some m \<Rightarrow> [WriteFile (join [d, fileName f @ ''.map'']) m]),
             Returned))
       (write_outputs d fs)"

text \<open>
  The bundler: \<open>rollup(config)\<close> followed by \<open>bundle.generate(config.output)\<close>, which
  gives the files of the bundle or throws. The failure of \<open>mkdir\<close> is caught and ignored
  by the script.
\<close>

fun runRollup_loop :: "(rollup_config \<Rightarrow> exn + output_file list) \<Rightarrow> rollup_config list \<Rightarrow> run" where
  "runRollup_loop rollup [] = ([], Returned)"
| "runRollup_loop rollup (config # rest) =
     then_run
       (case rollup config of
          Inl e \<Rightarrow> ([Rollup (config_input config) (out_file (config_output config))], Thrown e)
        | Inr result \<Rightarrow>
            then_run
              ([Rollup (config_input config) (out_file (config_output config)),
                Mkdir (dirname (out_file (config_output config)))], Returned)
              (write_outputs (dirname (out_file (config_output config))) result))
       (runRollup_loop rollup rest)"

datatype configs = One rollup_config | Many "rollup_config list"

definition runRollup :: "(rollup_config \<Rightarrow> exn + output_file list) \<Rightarrow> configs \<Rightarrow> run" where
  "runRollup rollup cs = runRollup_loop rollup (case cs of Many l \<Rightarrow> l | One c \<Rightarrow> [c])"

section \<open>The compile stage\<close>

record 'd emit_result =
  diagnostics :: "'d list"
  emitSkipped :: bool

text \<open>
  The compiler, as far as \<open>tsBuild\<close> uses it. The program is created from the files
  and options of \<open>tsconfig.json\<close> and a host; what it emits and reports depends on the
  host's module resolution.
\<close>

record 'd typescript =
  resolveModuleName :: "string \<Rightarrow> string \<Rightarrow> resolved_module option"
  program_emit :: "(string list \<Rightarrow> string \<Rightarrow> resolved_module option list) \<Rightarrow> 'd emit_result"
  getPreEmitDiagnostics :: "(string list \<Rightarrow> string \<Rightarrow> resolved_module option list) \<Rightarrow> 'd list"
  formatDiagnostic :: "'d \<Rightarrow> string"

definition tsBuild :: "registry \<Rightarrow> 'd typescript \<Rightarrow> run" where
  "tsBuild reg ts =
     (let host = customResolve (packageNames reg) (resolveModuleName ts);
          emitResult = program_emit ts host
      in then_run
           (map (\<lambda>diag. ConsoleError (formatDiagnostic ts diag))
              (getPreEmitDiagnostics ts host @ diagnostics emitResult), Returned)
           (if emitSkipped emitResult then error ''TS build failed'' else ([], Returned)))"

section \<open>The batch build\<close>

text \<open>
  \<open>build\<close>. The two formatted durations are read from the clock and are parameters.
\<close>

text \<open>
  \<open>buildPackages.map(rollupConfig).concat(buildPackages.map(rollupDeclConfig))\<close>
\<close>

definition bundle_configs :: "registry \<Rightarrow> exn + rollup_config list" where
  "bundle_configs reg =
     (case map_exn rollupConfig (buildPackages reg) of
        Inl e \<Rightarrow> Inl e
      | Inr cs \<Rightarrow>
          (case map_exn rollupDeclConfig (buildPackages reg) of
             Inl e \<Rightarrow> Inl e
           | Inr ds \<Rightarrow> Inr (cs @ ds)))"

definition build ::
  "registry \<Rightarrow> 'd typescript \<Rightarrow> (rollup_config \<Rightarrow> exn + output_file list) \<Rightarrow>
   string \<Rightarrow> string \<Rightarrow> run" where
  "build reg ts rollup secs1 secs2 =
     then_run ([ConsoleInfo ''Running TypeScript compiler...''], Returned)
    (then_run (tsBuild reg ts)
    (then_run ([ConsoleInfo (''Done in '' @ secs1 @ ''s''),
                ConsoleInfo ''Building bundles...''], Returned)
    (then_run
       (case bundle_configs reg of
          Inl e \<Rightarrow> ([], Thrown e)
        | Inr cs \<Rightarrow> runRollup rollup (Many cs))
       ([ConsoleLog (''Done in '' @ secs2 @ ''s'')], Returned))))"

text \<open>
  What the script expects of the bundler for a descriptor: it does not throw, every file
  of the result has contents, and the bundle itself is a file named as the last segment
  of the descriptor's output file, with a source map when the descriptor asks for one.
\<close>

definition basename :: "string \<Rightarrow> string" where
  "basename p = rev (takeWhile (\<lambda>c. c \<noteq> CHR ''/'') (rev p))"

definition bundles_ok :: "(rollup_config \<Rightarrow> exn + output_file list) \<Rightarrow> rollup_config \<Rightarrow> bool" where
  "bundles_ok rollup c =
     (case rollup c of
        Inl e \<Rightarrow> False
      | Inr result \<Rightarrow>
          list_all (\<lambda>f. file_content f \<noteq> None) result \<and>
          list_ex (\<lambda>f. fileName f = basename (out_file (config_output c)) \<and>
                        (sourcemap (config_output c) \<longrightarrow> file_map f \<noteq> None)) result)"

section \<open>Command dispatch\<close>

definition usage_lines :: "string list" where
  "usage_lines =
     [''Usage:'',
      ''  cm install [--ssh]      Clone and symlink the packages, install dependencies, build'',
      ''  cm packages             Emit a list of all pkg names'',
      ''  cm build                Build the bundle files'',
      ''  cm devserver            Start a dev server on port 8090'',
      ''  cm release              Create commits to tag a release'',
      ''  cm commit <args>        Run git commit in all packages that have changes'',
      ''  cm push                 Run git push in packages that have new commits'',
      ''  cm run <command>        Run the given command in each of the package dirs'',
      ''  cm --help'']"

text \<open>
  \<open>help(status)\<close> prints the usage text (its lines joined by newlines) and exits with
  \<open>status\<close>.
\<close>

definition help_exit :: "nat \<Rightarrow> run" where
  "help_exit status =
     ([ConsoleLog (concat (map (\<lambda>l. l @ [CHR 0x0A]) (butlast usage_lines)) @ last usage_lines)],
      Exited status)"

fun assertInstalled_loop :: "(string \<Rightarrow> bool) \<Rightarrow> Pkg list \<Rightarrow> run" where
  "assertInstalled_loop ex [] = ([], Returned)"
| "assertInstalled_loop ex (p # ps) =
     (if \<not> ex (dir p)
      then ([ConsoleError (''module '' @ name p @ '' is missing. Did you forget to run 'cm install'?'')],
            Exited 1)
      else assertInstalled_loop ex ps)"

definition assertInstalled :: "world \<Rightarrow> registry \<Rightarrow> run" where
  "assertInstalled w reg = assertInstalled_loop (existsSync w) (packages reg)"

text \<open>
  A command function: the number of its declared parameters (\<open>cmdFn.length\<close>) and what
  applying it to the arguments does. The table of \<open>start\<close> is an object literal, so a
  lookup also finds what every object inherits; the table is therefore a parameter, and
  \<open>start\<close> is modelled for any table.
\<close>

record cmdFn =
  fn_length :: nat
  fn_apply :: "string list \<Rightarrow> run"

definition argv_at :: "string list \<Rightarrow> nat \<Rightarrow> string option" where
  "argv_at argv i = (if i < length argv then Some (argv ! i) else None)"

text \<open>
  The lines of \<open>start\<close> after the installation check: the lookup of the command in
  the table (the key of an absent command is the string \<open>undefined\<close>), the check of
  the number of arguments, and the call, whose exception goes to \<open>error\<close>.
\<close>

definition dispatch :: "(string \<Rightarrow> cmdFn option) \<Rightarrow> string option \<Rightarrow> string list \<Rightarrow> run" where
  "dispatch table command args =
     (case table (case command of None \<Rightarrow> ''undefined'' | Some c \<Rightarrow> c) of
        None \<Rightarrow> help_exit 1
      | Some f \<Rightarrow>
          if fn_length f > length args then help_exit 1
          else (case fn_apply f args of
                  (evs, Thrown e) \<Rightarrow> then_run (evs, Returned) (error (exn_text e))
                | r \<Rightarrow> r))"

definition start :: "world \<Rightarrow> registry \<Rightarrow> (string \<Rightarrow> cmdFn option) \<Rightarrow> string list \<Rightarrow> run" where
  "start w reg table argv =
     (let command = argv_at argv 2 in
      then_run
        (if js_truthy command \<and> command \<noteq> Some ''install'' \<and> command \<noteq> Some ''--help''
         then assertInstalled w reg else ([], Returned))
        (dispatch table command (drop 3 argv)))"

text \<open>
  The script: the module-level statements build the registry, then \<open>start()\<close> runs. An
  exception of the registry construction is not caught by anything.
\<close>

definition cm :: "world \<Rightarrow> (registry \<Rightarrow> string \<Rightarrow> cmdFn option) \<Rightarrow> string list \<Rightarrow> run" where
  "cm w table argv =
     (case load_registry w of
        Inl e \<Rightarrow> ([], Thrown e)
      | Inr reg \<Rightarrow> start w reg (table reg) argv)"

section \<open>The dev server\<close>

record response =
  statusCode :: nat
  body :: string

text \<open>
  The two request handlers the server is built from, each made for a root directory:
  \<open>moduleserver.handleRequest\<close> answers and returns true (\<open>Some\<close>) or returns false
  (\<open>None\<close>); \<open>serveStatic\<close> answers (\<open>Some\<close>) or calls its continuation (\<open>None\<close>).
\<close>

record 'req serve_libs =
  moduleserver :: "string \<Rightarrow> nat \<Rightarrow> 'req \<Rightarrow> response option"
  serve_static :: "string \<Rightarrow> 'req \<Rightarrow> response option"

text \<open>A listening server: \<open>listen_host = None\<close> is \<open>undefined\<close>, the unspecified address.\<close>

record 'req server =
  listen_port :: nat
  listen_host :: "string option"
  on_request :: "'req \<Rightarrow> response"

definition startServer :: "world \<Rightarrow> 'req serve_libs \<Rightarrow> 'req server \<times> run" where
  "startServer w libs =
     (let serve = join [root w, ''demo''] in
      (\<lparr>listen_port = 8090,
        listen_host = (if js_truthy (env_OPEN w) then None else Some ''127.0.0.1''),
        on_request = (\<lambda>req.
          case moduleserver libs serve 2 req of
            Some r \<Rightarrow> r
          | None \<Rightarrow>
              (case serve_static libs serve req of
                 Some r \<Rightarrow> r
               | None \<Rightarrow> \<lparr>statusCode = 404, body = ''Not found''\<rparr>))\<rparr>,
       ([ConsoleLog ''Dev server listening on 8090''], Returned)))"

section \<open>A sample checkout\<close>

text \<open>
  A root directory in which \<open>view\<close> has an index file beside another source file,
  \<open>lang-python\<close> has \<open>python.ts\<close> beside a helper, and every other package has one
  source file beside a hidden file and a file that is no source file.
\<close>

definition demo_world :: world where
  "demo_world =
     \<lparr>root = ''/cm'',
      readdirSync = (\<lambda>p.
        if p = ''/cm/view/src'' then Inr [''index.ts'', ''other.ts'']
        else if p = ''/cm/lang-python/src'' then Inr [''python.ts'', ''helpers.ts'']
        else Inr [''main.ts'', ''.hidden.ts'', ''README.md'']),
      existsSync = (\<lambda>p. True),
      env_OPEN = None\<rparr>"

text \<open>
  Further sample inputs: the package \<open>state\<close> of that checkout, a compiler that reports
  one diagnostic before and one during the emit, request handlers, a command table, and
  checkouts in which the directory of \<open>legacy-modes\<close> is missing, \<open>legacy-modes\<close> has
  source files, or \<open>lint\<close> has two source files of which none is a main file.
\<close>

definition sample_pkg :: Pkg where
  "sample_pkg = \<lparr>name = ''state'', dir = ''/cm/state'', main = Some ''/cm/state/src/main.ts''\<rparr>"

definition sample_ts :: "bool \<Rightarrow> string typescript" where
  "sample_ts skipped =
     \<lparr>resolveModuleName = (\<lambda>n parent. None),
      program_emit = (\<lambda>host. \<lparr>diagnostics = [''cannot write file''], emitSkipped = skipped\<rparr>),
      getPreEmitDiagnostics = (\<lambda>host. [''type mismatch'']),
      formatDiagnostic = (\<lambda>d. ''error: '' @ d)\<rparr>"

definition sample_libs :: "string serve_libs" where
  "sample_libs =
     \<lparr>moduleserver = (\<lambda>r depth req.
        if req = ''/_m/view/index.js'' then Some \<lparr>statusCode = 200, body = ''module''\<rparr> else None),
      serve_static = (\<lambda>r req.
        if req = ''/index.html'' then Some \<lparr>statusCode = 200, body = ''page''\<rparr> else None)\<rparr>"

definition sample_table :: "string \<Rightarrow> cmdFn option" where
  "sample_table c =
     (if c = ''packages'' \<or> c = ''install''
      then Some \<lparr>fn_length = 0, fn_apply = (\<lambda>args. ([ConsoleLog c], Returned))\<rparr>
      else if c = ''--help'' then Some \<lparr>fn_length = 0, fn_apply = (\<lambda>args. help_exit 0)\<rparr>
      else None)"


definition modes_world :: world where
  "modes_world = demo_world\<lparr>readdirSync := (\<lambda>p. Inr [''index.ts'', ''other.ts''])\<rparr>"

definition broken_world :: world where
  "broken_world =
     demo_world\<lparr>readdirSync := (\<lambda>p.
       if p = ''/cm/lint/src'' then Inr [''rules.ts'', ''report.ts''] else Inr [''index.ts''])\<rparr>"

text \<open>
  A default resolution that finds every module as the built declaration file of a
  library under \<open>node_modules\<close>.
\<close>

definition sample_resolve :: "string \<Rightarrow> string \<Rightarrow> resolved_module option" where
  "sample_resolve n parent =
     Some \<lparr>resolvedFileName = Some (''/cm/node_modules/'' @ n @ ''/dist/index.d.ts''),
           isExternalLibraryImport = True\<rparr>"

text \<open>A bundler that gives one chunk, named after the output file.\<close>

definition sample_rollup :: "rollup_config \<Rightarrow> exn + output_file list" where
  "sample_rollup c =
     Inr [\<lparr>fileName = basename (out_file (config_output c)),
           code = Some ''export {}'', source = None,
           file_map = (if sourcemap (config_output c) then Some ''mappings'' else None)\<rparr>]"

section \<open>Properties of the registry\<close>

lemma then_run_Returned [simp]: "then_run (evs, Returned) r = (evs @ fst r, snd r)"
  by (simp add: then_run_def)

lemma then_run_Exited [simp]: "then_run (evs, Exited k) r = (evs, Exited k)"
  by (simp add: then_run_def)

lemma then_run_Thrown [simp]: "then_run (evs, Thrown e) r = (evs, Thrown e)"
  by (simp add: then_run_def)

lemma map_exn_Inr:
  "map_exn f xs = Inr ys \<Longrightarrow> list_all2 (\<lambda>x y. f x = Inr y) xs ys"
  by (induction xs arbitrary: ys) (auto split: sum.splits)

lemma new_Pkg_name: "new_Pkg w n = Inr p \<Longrightarrow> name p = n \<and> dir p = join [root w, n]"
  by (auto simp: new_Pkg_def Let_def split: if_splits sum.splits option.splits)

lemma new_Pkg_main:
  "new_Pkg w n = Inr p \<Longrightarrow> js_truthy (main p) \<longleftrightarrow> n \<noteq> ''legacy-modes''"
  by (auto simp: new_Pkg_def Let_def js_truthy_def split: if_splits sum.splits option.splits)

lemma all_names_distinct: "distinct (core_names @ nonCore_names)"
  by (simp add: core_names_def nonCore_names_def)

lemma load_registry_packages:
  assumes "load_registry w = Inr reg"
  shows "list_all2 (\<lambda>n p. new_Pkg w n = Inr p) (core_names @ nonCore_names) (packages reg)"
    and "buildPackages reg = filter (\<lambda>p. js_truthy (main p)) (packages reg)"
    and "packageNames reg = fold (\<lambda>p m. m(name p \<mapsto> p)) (packages reg) Map.empty"
  using assms
  by (auto simp: load_registry_def Let_def split: sum.splits
           dest!: map_exn_Inr intro: list_all2_appendI)

lemma load_registry_names:
  assumes "load_registry w = Inr reg"
  shows "map name (packages reg) = core_names @ nonCore_names"
proof -
  have "list_all2 (\<lambda>n p. name p = n) (core_names @ nonCore_names) (packages reg)"
    using load_registry_packages(1)[OF assms]
    by (rule list_all2_mono) (simp add: new_Pkg_name)
  then show ?thesis
    by (simp add: list_all2_conv_all_nth list_eq_iff_nth_eq)
qed

lemma load_registry_member:
  assumes "load_registry w = Inr reg" and "p \<in> set (packages reg)"
  shows "new_Pkg w (name p) = Inr p" and "name p \<in> set (core_names @ nonCore_names)"
proof -
  let ?ns = "core_names @ nonCore_names"
  from assms(2) obtain i where i: "i < length (packages reg)" "packages reg ! i = p"
    by (auto simp: in_set_conv_nth)
  note l = load_registry_packages(1)[OF assms(1)]
  from list_all2_nthD2[OF l i(1)] i(2) have "new_Pkg w (?ns ! i) = Inr p" by simp
  moreover from list_all2_lengthD[OF l] i(1) have "i < length ?ns" by simp
  then have "?ns ! i \<in> set ?ns" by (rule nth_mem)
  ultimately obtain n where n: "n \<in> set ?ns" "new_Pkg w n = Inr p"
    by blast
  with new_Pkg_name[OF n(2)] show "new_Pkg w (name p) = Inr p"
    and "name p \<in> set (core_names @ nonCore_names)" by auto
qed

lemma fold_upd_other:
  "\<forall>p\<in>set ps. name p \<noteq> g \<Longrightarrow> fold (\<lambda>p m. m(name p \<mapsto> p)) ps m g = m g"
  by (induction ps arbitrary: m) auto

lemma fold_upd_distinct:
  "distinct (map name ps) \<Longrightarrow> p \<in> set ps \<Longrightarrow>
   fold (\<lambda>p m. m(name p \<mapsto> p)) ps m (name p) = Some p"
proof (induction ps arbitrary: m)
  case Nil
  then show ?case by simp
next
  case (Cons a ps)
  show ?case
  proof (cases "p = a")
    case True
    from Cons.prems have "name a \<notin> name ` set ps" by simp
    then have "\<forall>q\<in>set ps. name q \<noteq> name a" by (metis imageI)
    from fold_upd_other[OF this]
    have "fold (\<lambda>p m. m(name p \<mapsto> p)) ps (m(name a \<mapsto> a)) (name a) = (m(name a \<mapsto> a)) (name a)" .
    with True show ?thesis by (simp only: fold.simps o_apply fun_upd_same)
  next
    case False
    with Cons show ?thesis by simp
  qed
qed

lemma packageNames_lookup:
  assumes "load_registry w = Inr reg"
  shows "packageNames reg g = Some p \<longleftrightarrow> p \<in> set (packages reg) \<and> name p = g"
proof -
  let ?f = "fold (\<lambda>p m. m(name p \<mapsto> p)) (packages reg) Map.empty"
  have d: "distinct (map name (packages reg))"
    by (simp only: load_registry_names[OF assms] all_names_distinct)
  have pn: "packageNames reg = ?f" by (rule load_registry_packages(3)[OF assms])
  show ?thesis
  proof
    assume a: "packageNames reg g = Some p"
    have "\<exists>q\<in>set (packages reg). name q = g"
    proof (rule ccontr)
      assume "\<not> ?thesis"
      then have "\<forall>q\<in>set (packages reg). name q \<noteq> g" by blast
      from fold_upd_other[OF this] a pn show False by simp
    qed
    then obtain q where q: "q \<in> set (packages reg)" "name q = g" by blast
    from fold_upd_distinct[OF d q(1)] q(2) a pn have "q = p" by simp
    with q show "p \<in> set (packages reg) \<and> name p = g" by simp
  next
    assume "p \<in> set (packages reg) \<and> name p = g"
    with fold_upd_distinct[OF d] pn show "packageNames reg g = Some p" by auto
  qed
qed

lemma cm_re_exec_word: "cm_re_exec n = Some g \<Longrightarrow> g \<noteq> [] \<and> list_all word_char g \<and> n = ''@codemirror/'' @ g"
proof -
  assume a: "cm_re_exec n = Some g"
  then have g: "g = drop 12 n" and t: "take 12 n = ''@codemirror/''"
    and w: "g \<noteq> [] \<and> list_all word_char g"
    by (auto simp: cm_re_exec_def split: if_splits)
  have "n = take 12 n @ drop 12 n" by simp
  with g t have "n = ''@codemirror/'' @ g" by simp
  with w show ?thesis by simp
qed

lemma cm_re_exec_not_legacy: "cm_re_exec n \<noteq> Some ''legacy-modes''"
proof
  assume "cm_re_exec n = Some ''legacy-modes''"
  from cm_re_exec_word[OF this] show False by (simp add: word_char_def)
qed

lemma new_Pkg_main_file:
  assumes "new_Pkg w n = Inr p" and "n \<noteq> ''legacy-modes''"
  shows "\<exists>listing f. readdirSync w (join [dir p, ''src'']) = Inr listing \<and>
           f \<in> set (filter ts_file_re_test listing) \<and> main p = Some (join [dir p, ''src'', f])"
proof -
  from assms obtain listing where l: "readdirSync w (join [join [root w, n], ''src'']) = Inr listing"
    by (auto simp: new_Pkg_def Let_def split: sum.splits)
  let ?files = "filter ts_file_re_test listing"
  have hd: "length ?files = 1 \<Longrightarrow> hd ?files \<in> set ?files"
    by (cases ?files) auto
  from assms l hd obtain f where "f \<in> set ?files" "main p = Some (join [join [root w, n], ''src'', f])"
    by (auto simp: new_Pkg_def Let_def split: if_splits option.splits)
  with l new_Pkg_name[OF assms(1)] show ?thesis by auto
qed

lemma buildPackages_iff:
  assumes "load_registry w = Inr reg"
  shows "p \<in> set (buildPackages reg) \<longleftrightarrow> p \<in> set (packages reg) \<and> name p \<noteq> ''legacy-modes''"
  using load_registry_packages(2)[OF assms] load_registry_member(1)[OF assms, of p]
    new_Pkg_main[of w "name p" p]
  by auto

lemma find_buildPackages:
  assumes "load_registry w = Inr reg" and "g \<noteq> ''legacy-modes''"
  shows "find (\<lambda>p. name p = g) (buildPackages reg) = packageNames reg g"
proof (cases "packageNames reg g")
  case None
  then have "\<not> (\<exists>p. p \<in> set (packages reg) \<and> name p = g)"
    using packageNames_lookup[OF assms(1), of g] by simp
  then have "\<not> (\<exists>p\<in>set (buildPackages reg). name p = g)"
    using buildPackages_iff[OF assms(1)] by blast
  then have "find (\<lambda>p. name p = g) (buildPackages reg) = None"
    by (simp add: find_None_iff)
  with None show ?thesis by simp
next
  case (Some p)
  then have p: "p \<in> set (packages reg)" "name p = g"
    using packageNames_lookup[OF assms(1), of g p] by simp_all
  with assms(2) have "p \<in> set (buildPackages reg)"
    using buildPackages_iff[OF assms(1)] by blast
  with p(2) have "\<exists>q\<in>set (buildPackages reg). name q = g" by blast
  then obtain q where q: "find (\<lambda>p. name p = g) (buildPackages reg) = Some q"
    by (cases "find (\<lambda>p. name p = g) (buildPackages reg)") (auto simp: find_None_iff)
  then have "q \<in> set (buildPackages reg)" "name q = g"
    by (auto simp: find_Some_iff)
  then have "packageNames reg g = Some q"
    using packageNames_lookup[OF assms(1), of g q] buildPackages_iff[OF assms(1)] by blast
  with Some q show ?thesis by simp
qed

lemma demo_registry: "\<exists>reg. load_registry demo_world = Inr reg"
  by (simp add: load_registry_def core_names_def nonCore_names_def new_Pkg_def demo_world_def
        ts_file_re_test_def strip_kind_prefix_def Let_def)



lemma load_registry_entry:
  assumes "load_registry w = Inr reg" and "n \<in> set (core_names @ nonCore_names)"
  shows "\<exists>p. new_Pkg w n = Inr p \<and> p \<in> set (packages reg) \<and> packageNames reg n = Some p"
proof -
  let ?ns = "core_names @ nonCore_names"
  note l = load_registry_packages(1)[OF assms(1)]
  from assms(2) obtain i where i: "i < length ?ns" "?ns ! i = n"
    by (auto simp only: in_set_conv_nth)
  from list_all2_nthD[OF l i(1)] i(2) have p: "new_Pkg w n = Inr (packages reg ! i)" by simp
  from list_all2_lengthD[OF l] i(1) have "i < length (packages reg)" by simp
  then have m: "packages reg ! i \<in> set (packages reg)" by (rule nth_mem)
  from new_Pkg_name[OF p] m packageNames_lookup[OF assms(1), of n "packages reg ! i"]
  have "packageNames reg n = Some (packages reg ! i)" by simp
  with p m show ?thesis by blast
qed

lemma load_registry_fails:
  assumes "new_Pkg w n = Inl e" and "n \<in> set (core_names @ nonCore_names)"
  shows "\<exists>e'. load_registry w = Inl e'"
proof (cases "load_registry w")
  case (Inl e')
  then show ?thesis by blast
next
  case (Inr reg)
  from load_registry_entry[OF Inr assms(2)] assms(1) show ?thesis by simp
qed

lemma ts_file_nonempty: "ts_file_re_test f \<Longrightarrow> f \<noteq> []"
  by (auto simp: ts_file_re_test_def)


section \<open>Properties of the bundle stage\<close>

lemma write_outputs_returns:
  "list_all (\<lambda>f. file_content f \<noteq> None) fs \<Longrightarrow> snd (write_outputs d fs) = Returned"
  by (induction fs) (auto split: option.splits)

lemma runRollup_loop_returns:
  "\<forall>c\<in>set cs. bundles_ok rollup c \<Longrightarrow> snd (runRollup_loop rollup cs) = Returned"
proof (induction cs)
  case Nil
  then show ?case by simp
next
  case (Cons c cs)
  then show ?case
    by (auto simp: bundles_ok_def write_outputs_returns split: sum.splits)
qed

lemma map_exn_total:
  "\<forall>x\<in>set xs. \<exists>y. f x = Inr y \<Longrightarrow> \<exists>ys. map_exn f xs = Inr ys"
  by (induction xs) (auto split: sum.splits)

lemma buildPackages_main:
  assumes "load_registry w = Inr reg" and "p \<in> set (buildPackages reg)"
  shows "\<exists>m. main p = Some m"
  using assms load_registry_packages(2)[OF assms(1)]
  by (auto simp: js_truthy_def split: option.splits)

lemma bundle_configs_built:
  assumes "load_registry w = Inr reg"
  shows "\<exists>cs ds. map_exn rollupConfig (buildPackages reg) = Inr cs \<and>
           map_exn rollupDeclConfig (buildPackages reg) = Inr ds \<and>
           bundle_configs reg = Inr (cs @ ds)"
proof -
  have "\<forall>p\<in>set (buildPackages reg). \<exists>c. rollupConfig p = Inr c"
    using buildPackages_main[OF assms] by (fastforce simp: rollupConfig_def)
  from map_exn_total[OF this] obtain cs where
    cs: "map_exn rollupConfig (buildPackages reg) = Inr cs" ..
  have "\<forall>p\<in>set (buildPackages reg). \<exists>c. rollupDeclConfig p = Inr c"
    using buildPackages_main[OF assms] by (fastforce simp: rollupDeclConfig_def)
  from map_exn_total[OF this] obtain ds where
    ds: "map_exn rollupDeclConfig (buildPackages reg) = Inr ds" ..
  from cs ds show ?thesis by (simp add: bundle_configs_def)
qed

lemma then_run_assoc: "then_run (then_run a b) c = then_run a (then_run b c)"
  by (cases a; cases b) (auto simp: then_run_def split: outcome.splits)

lemma runRollup_loop_append:
  "runRollup_loop rollup (xs @ ys) =
     then_run (runRollup_loop rollup xs) (runRollup_loop rollup ys)"
proof (induction xs)
  case Nil
  show ?case by (cases "runRollup_loop rollup ys") simp
next
  case (Cons x xs)
  then show ?case by (simp add: then_run_assoc)
qed

lemma runRollup_loop_Cons_ok:
  assumes "rollup c = Inr r" and "list_all (\<lambda>f. file_content f \<noteq> None) r"
  shows "fst (runRollup_loop rollup (c # cs)) =
           Rollup (config_input c) (out_file (config_output c)) #
           Mkdir (dirname (out_file (config_output c))) #
           fst (write_outputs (dirname (out_file (config_output c))) r) @
           fst (runRollup_loop rollup cs)"
  using assms write_outputs_returns[OF assms(2), of "dirname (out_file (config_output c))"]
  by (simp add: then_run_def)

lemma runRollup_loop_split:
  assumes "\<forall>c\<in>set (xs @ c # ys). bundles_ok rollup c" and "rollup c = Inr r"
  shows "fst (runRollup_loop rollup (xs @ c # ys)) =
           fst (runRollup_loop rollup xs) @
           Rollup (config_input c) (out_file (config_output c)) #
           Mkdir (dirname (out_file (config_output c))) #
           fst (write_outputs (dirname (out_file (config_output c))) r) @
           fst (runRollup_loop rollup ys)"
proof -
  from assms(1) have "\<forall>c\<in>set xs. bundles_ok rollup c" by simp
  from runRollup_loop_returns[OF this] have x: "snd (runRollup_loop rollup xs) = Returned" .
  from assms have "list_all (\<lambda>f. file_content f \<noteq> None) r"
    by (auto simp: bundles_ok_def split: sum.splits)
  then have "fst (runRollup_loop rollup (c # ys)) =
           Rollup (config_input c) (out_file (config_output c)) #
           Mkdir (dirname (out_file (config_output c))) #
           fst (write_outputs (dirname (out_file (config_output c))) r) @
           fst (runRollup_loop rollup ys)"
    using assms(2) by (rule runRollup_loop_Cons_ok[rotated])
  with x show ?thesis
    by (simp only: runRollup_loop_append then_run_def outcome.case fst_conv)
qed

lemma map_exn_split:
  assumes "map_exn f xs = Inr ys" and "x \<in> set xs"
  shows "\<exists>as y bs. ys = as @ y # bs \<and> f x = Inr y"
  using assms
proof (induction xs arbitrary: ys)
  case Nil
  then show ?case by simp
next
  case (Cons a xs)
  from Cons.prems(1) obtain b zs where b: "f a = Inr b" "map_exn f xs = Inr zs" "ys = b # zs"
    by (auto split: sum.splits)
  show ?case
  proof (cases "x = a")
    case True
    with b have "ys = [] @ b # zs \<and> f x = Inr b" by simp
    then show ?thesis by blast
  next
    case False
    with Cons.prems(2) have "x \<in> set xs" by simp
    from Cons.IH[OF b(2) this] obtain as y bs where "zs = as @ y # bs" "f x = Inr y" by blast
    with b(3) have "ys = (b # as) @ y # bs \<and> f x = Inr y" by simp
    then show ?thesis by blast
  qed
qed

lemma write_outputs_dist_trace:
  "list_all (\<lambda>f. file_content f \<noteq> None) fs \<Longrightarrow>
   fst (write_outputs (join [d, ''dist'']) fs) =
     concat (map (\<lambda>f. case file_content f of
                         None \<Rightarrow> []
                       | Some t \<Rightarrow>
                           WriteFile (join [d, ''dist'', fileName f]) t #
                           (case file_map f of
                              None \<Rightarrow> []
                            | Some m \<Rightarrow> [WriteFile (join [d, ''dist'', fileName f @ ''.map'']) m])) fs)"
  by (induction fs) (auto split: option.splits)

section \<open>The module resolver override, verified\<close>

text \<open>
  What the hook does, once the registry is built: a specifier \<open>@codemirror/\<close> followed
  by word characters only that are the name of a buildable package resolves to that
  package's \<open>main\<close> source file, which is a file of its \<open>src\<close> directory, with
  \<open>isExternalLibraryImport\<close> false; every other specifier gets what the compiler's
  default resolution gives. The only package that is not buildable is \<open>legacy-modes\<close>,
  whose name does not consist of word characters.
\<close>

lemma customResolve_word_names:
  assumes "load_registry w = Inr reg"
  shows "customResolve (packageNames reg) ts_resolve names parent =
           map (\<lambda>n. case cm_re_exec n of
                       None \<Rightarrow> ts_resolve n parent
                     | Some g \<Rightarrow>
                         (case find (\<lambda>p. name p = g) (buildPackages reg) of
                            None \<Rightarrow> ts_resolve n parent
                          | Some p \<Rightarrow> Some \<lparr>resolvedFileName = main p,
                                             isExternalLibraryImport = False\<rparr>)) names
         \<and> (\<forall>p\<in>set (buildPackages reg).
               \<exists>f. ts_file_re_test f \<and> main p = Some (join [dir p, ''src'', f]))"
proof
  have "\<And>n g. cm_re_exec n = Some g \<Longrightarrow>
          find (\<lambda>p. name p = g) (buildPackages reg) = packageNames reg g"
    using find_buildPackages[OF assms] cm_re_exec_not_legacy by metis
  then show "customResolve (packageNames reg) ts_resolve names parent =
           map (\<lambda>n. case cm_re_exec n of
                       None \<Rightarrow> ts_resolve n parent
                     | Some g \<Rightarrow>
                         (case find (\<lambda>p. name p = g) (buildPackages reg) of
                            None \<Rightarrow> ts_resolve n parent
                          | Some p \<Rightarrow> Some \<lparr>resolvedFileName = main p,
                                             isExternalLibraryImport = False\<rparr>)) names"
    by (auto simp: customResolve_def split: option.splits)
next
  show "\<forall>p\<in>set (buildPackages reg).
          \<exists>f. ts_file_re_test f \<and> main p = Some (join [dir p, ''src'', f])"
  proof
    fix p assume "p \<in> set (buildPackages reg)"
    then have "p \<in> set (packages reg)" "name p \<noteq> ''legacy-modes''"
      using buildPackages_iff[OF assms] by simp_all
    from new_Pkg_main_file[OF load_registry_member(1)[OF assms this(1)] this(2)]
    show "\<exists>f. ts_file_re_test f \<and> main p = Some (join [dir p, ''src'', f])" by auto
  qed
qed

lemma customResolve_word_names_example:
  "\<exists>reg. load_registry demo_world = Inr reg \<and>
     customResolve (packageNames reg) (\<lambda>n p. None)
       [''@codemirror/view'', ''@codemirror/lang-python'', ''lezer-tree''] ''/cm/state/src/main.ts'' =
     [Some \<lparr>resolvedFileName = Some ''/cm/view/src/index.ts'', isExternalLibraryImport = False\<rparr>,
      None, None]"
proof -
  from demo_registry obtain reg where h: "load_registry demo_world = Inr reg" ..
  have "find (\<lambda>p. name p = ''view'') (buildPackages reg) =
      Some \<lparr>name = ''view'', dir = ''/cm/view'', main = Some ''/cm/view/src/index.ts''\<rparr>"
    using h
    by (auto simp add: load_registry_def core_names_def nonCore_names_def new_Pkg_def demo_world_def
        ts_file_re_test_def strip_kind_prefix_def Let_def js_truthy_def)
  with customResolve_word_names[OF h, of "\<lambda>n p. None"
      "[''@codemirror/view'', ''@codemirror/lang-python'', ''lezer-tree'']" "''/cm/state/src/main.ts''"]
  have "customResolve (packageNames reg) (\<lambda>n p. None)
       [''@codemirror/view'', ''@codemirror/lang-python'', ''lezer-tree''] ''/cm/state/src/main.ts'' =
     [Some \<lparr>resolvedFileName = Some ''/cm/view/src/index.ts'', isExternalLibraryImport = False\<rparr>,
      None, None]"
    by (simp add: cm_re_exec_def word_char_def)
  with h show ?thesis by blast
qed

text \<open>
  C1, as the code has it. The source says the hook is there to handle sibling packages,
  and sixteen of the buildable packages have a hyphen in their name. The pattern of the
  hook takes word characters only, so the specifier of such a package does not match:
  \<open>@codemirror/lang-python\<close> goes to the default resolution, which in this sample
  answers with the built declaration file as an external library, although
  \<open>lang-python\<close> is a buildable package of the registry with a main file.
\<close>

theorem customResolve_hyphenated_package:
  "\<exists>reg p. load_registry demo_world = Inr reg \<and> p \<in> set (buildPackages reg) \<and>
     name p = ''lang-python'' \<and> main p = Some ''/cm/lang-python/src/python.ts'' \<and>
     customResolve (packageNames reg) sample_resolve [''@codemirror/lang-python'']
       ''/cm/lang-html/src/main.ts'' =
     [Some \<lparr>resolvedFileName = Some ''/cm/node_modules/@codemirror/lang-python/dist/index.d.ts'',
            isExternalLibraryImport = True\<rparr>]"
proof -
  from demo_registry obtain reg where h: "load_registry demo_world = Inr reg" ..
  let ?P = "\<lparr>name = ''lang-python'', dir = ''/cm/lang-python'',
             main = Some ''/cm/lang-python/src/python.ts''\<rparr>"
  have "''lang-python'' \<in> set (core_names @ nonCore_names)" by (simp add: nonCore_names_def)
  from load_registry_entry[OF h this] obtain p where
    p: "new_Pkg demo_world ''lang-python'' = Inr p" "p \<in> set (packages reg)" by blast
  have "new_Pkg demo_world ''lang-python'' = Inr ?P"
    by (simp add: new_Pkg_def demo_world_def ts_file_re_test_def strip_kind_prefix_def)
  with p have "?P \<in> set (packages reg)" by simp
  then have b: "?P \<in> set (buildPackages reg)"
    using buildPackages_iff[OF h, of ?P] by simp
  have c: "customResolve (packageNames reg) sample_resolve [''@codemirror/lang-python'']
       ''/cm/lang-html/src/main.ts'' =
     [Some \<lparr>resolvedFileName = Some ''/cm/node_modules/@codemirror/lang-python/dist/index.d.ts'',
            isExternalLibraryImport = True\<rparr>]"
    by (simp add: customResolve_def cm_re_exec_def word_char_def sample_resolve_def)
  from h b c show ?thesis by (intro exI[of _ reg] exI[of _ ?P]) simp
qed

section \<open>The externality predicate, verified\<close>

text \<open>
  C2, as the code has it. The claim that \<open>external\<close> is true of the runtime-support
  helper \<open>tslib\<close> fails: the predicate is false there, so the helper is bundled.
\<close>

theorem external_tslib_counterexample: "\<not> external ''tslib''"
  by (simp add: external_def)

text \<open>
  C2, amended. \<open>external\<close> is false of a specifier that begins with \<open>/\<close> or \<open>./\<close>
  or with a word character and a colon, false of \<open>tslib\<close>, and true of every other
  specifier that does not begin with a dot.
\<close>

theorem external_cases:
  "(prefix ''/'' i \<or> prefix ''./'' i \<or> (\<exists>c r. i = c # CHR '':'' # r \<and> word_char c)
      \<longrightarrow> \<not> external i)
   \<and> (i = ''tslib'' \<longrightarrow> \<not> external i)
   \<and> (i \<noteq> ''tslib'' \<and> \<not> prefix ''/'' i \<and> \<not> prefix ''.'' i \<and>
        \<not> (\<exists>c r. i = c # CHR '':'' # r \<and> word_char c) \<longrightarrow> external i)"
  by (cases i rule: path_re_test.cases) (auto simp: external_def)

theorem external_cases_witness:
  "\<not> external ''./view'' \<and> \<not> external ''/cm/view/src/index.js'' \<and> \<not> external ''C:/cm/index.js''
   \<and> \<not> external ''tslib'' \<and> external ''@codemirror/state'' \<and> external ''lezer-tree''"
  using external_cases[of "''./view''"] external_cases[of "''/cm/view/src/index.js''"]
    external_cases[of "''C:/cm/index.js''"] external_cases[of "''tslib''"]
    external_cases[of "''@codemirror/state''"] external_cases[of "''lezer-tree''"]
  by (simp add: word_char_def)

text \<open>
  A specifier that begins with \<open>../\<close> is matched by neither alternative of the pattern.
\<close>

lemma external_parent_directory: "external ''../view/src/index''"
  by (simp add: external_def)

section \<open>The compile stage, verified\<close>

text \<open>
  C3. \<open>tsBuild\<close> prints every pre-emit diagnostic and then every emit diagnostic, in
  that order. It ends the process with status 1, after printing \<open>TS build failed\<close>, if
  and only if the emit was skipped; otherwise it returns, whatever was printed, and
  \<open>build\<close> goes on to announce the bundle stage.
\<close>

theorem tsBuild_verdict:
  "let host = customResolve (packageNames reg) (resolveModuleName ts);
       emitResult = program_emit ts host;
       printed = map (\<lambda>d. ConsoleError (formatDiagnostic ts d))
                   (getPreEmitDiagnostics ts host @ diagnostics emitResult)
   in (snd (tsBuild reg ts) = Exited 1 \<longleftrightarrow> emitSkipped emitResult)
    \<and> (emitSkipped emitResult \<longrightarrow>
          fst (tsBuild reg ts) = printed @ [ConsoleError ''TS build failed''])
    \<and> (\<not> emitSkipped emitResult \<longrightarrow>
          tsBuild reg ts = (printed, Returned) \<and>
          (\<exists>rest. fst (build reg ts rollup secs1 secs2) =
             ConsoleInfo ''Running TypeScript compiler...'' # printed @
             ConsoleInfo (''Done in '' @ secs1 @ ''s'') # ConsoleInfo ''Building bundles...'' # rest))"
  by (simp add: tsBuild_def build_def Let_def error_def then_run_def split: outcome.splits)

theorem tsBuild_verdict_witness:
  "\<exists>reg. load_registry demo_world = Inr reg \<and>
     tsBuild reg (sample_ts False) =
       ([ConsoleError ''error: type mismatch'', ConsoleError ''error: cannot write file''], Returned)
     \<and> tsBuild reg (sample_ts True) =
       ([ConsoleError ''error: type mismatch'', ConsoleError ''error: cannot write file'',
         ConsoleError ''TS build failed''], Exited 1)"
proof -
  from demo_registry obtain reg where h: "load_registry demo_world = Inr reg" ..
  have "tsBuild reg (sample_ts False) =
     ([ConsoleError ''error: type mismatch'', ConsoleError ''error: cannot write file''], Returned)"
    using tsBuild_verdict[of reg "sample_ts False"]
    by (simp add: sample_ts_def Let_def)
  moreover have "tsBuild reg (sample_ts True) =
     ([ConsoleError ''error: type mismatch'', ConsoleError ''error: cannot write file'',
       ConsoleError ''TS build failed''], Exited 1)"
    using tsBuild_verdict[of reg "sample_ts True"]
    by (simp add: sample_ts_def Let_def prod_eq_iff)
  ultimately show ?thesis using h by blast
qed

section \<open>Registry construction, verified\<close>

text \<open>
  C4, as the code has it. The claim is about every package, but the constructor does
  not read the source directory of \<open>legacy-modes\<close>: with an index file among several
  source files there, the package still has no main file.
\<close>

theorem legacy_modes_index_counterexample:
  "readdirSync modes_world (join [join [root modes_world, ''legacy-modes''], ''src'']) =
     Inr [''index.ts'', ''other.ts'']
   \<and> filter ts_file_re_test [''index.ts'', ''other.ts''] = [''index.ts'', ''other.ts'']
   \<and> new_Pkg modes_world ''legacy-modes'' =
       Inr \<lparr>name = ''legacy-modes'', dir = ''/cm/legacy-modes'', main = None\<rparr>"
  by (simp add: new_Pkg_def modes_world_def demo_world_def ts_file_re_test_def)

text \<open>
  C4, amended. For every package other than \<open>legacy-modes\<close> whose source directory
  lists more than one recognised source file, the constructor picks \<open>index.ts\<close> if it is
  among them, otherwise the file named after the package with a leading \<open>theme-\<close> or
  \<open>lang-\<close> removed if that is among them, and otherwise throws; then, for a declared
  package, the registry construction throws and the script ends with that exception before
  \<open>start\<close> has run, with no effect at all. In a registry that was built, the entry of a
  declared package is what its constructor gave.
\<close>

theorem several_sources_main:
  assumes "n \<noteq> ''legacy-modes''"
    and "readdirSync w (join [join [root w, n], ''src'']) = Inr listing"
    and "files = filter ts_file_re_test listing"
    and "length files > 1"
  shows "(''index.ts'' \<in> set files \<longrightarrow>
            new_Pkg w n = Inr \<lparr>name = n, dir = join [root w, n],
                               main = Some (join [join [root w, n], ''src'', ''index.ts''])\<rparr>)
       \<and> (''index.ts'' \<notin> set files \<and> strip_kind_prefix n @ ''.ts'' \<in> set files \<longrightarrow>
            new_Pkg w n = Inr \<lparr>name = n, dir = join [root w, n],
                               main = Some (join [join [root w, n], ''src'',
                                                  strip_kind_prefix n @ ''.ts''])\<rparr>)
       \<and> (''index.ts'' \<notin> set files \<and> strip_kind_prefix n @ ''.ts'' \<notin> set files \<longrightarrow>
            new_Pkg w n = Inl (Error (''Couldn't find a main script for '' @ n)) \<and>
            (n \<in> set (core_names @ nonCore_names) \<longrightarrow>
               (\<exists>e. load_registry w = Inl e \<and> (\<forall>table argv. cm w table argv = ([], Thrown e)))))
       \<and> (\<forall>reg. load_registry w = Inr reg \<and> n \<in> set (core_names @ nonCore_names) \<longrightarrow>
             (\<exists>p. new_Pkg w n = Inr p \<and> packageNames reg n = Some p))"
proof (intro conjI impI allI)
  assume "''index.ts'' \<in> set files"
  with assms show "new_Pkg w n = Inr \<lparr>name = n, dir = join [root w, n],
                               main = Some (join [join [root w, n], ''src'', ''index.ts''])\<rparr>"
    by (simp add: new_Pkg_def Let_def)
next
  assume "''index.ts'' \<notin> set files \<and> strip_kind_prefix n @ ''.ts'' \<in> set files"
  with assms show "new_Pkg w n = Inr \<lparr>name = n, dir = join [root w, n],
                               main = Some (join [join [root w, n], ''src'',
                                                  strip_kind_prefix n @ ''.ts''])\<rparr>"
    by (auto simp: new_Pkg_def Let_def)
next
  assume a: "''index.ts'' \<notin> set files \<and> strip_kind_prefix n @ ''.ts'' \<notin> set files"
  with assms show f: "new_Pkg w n = Inl (Error (''Couldn't find a main script for '' @ n))"
    by (simp add: new_Pkg_def Let_def)
  assume "n \<in> set (core_names @ nonCore_names)"
  from load_registry_fails[OF f this] obtain e where "load_registry w = Inl e" ..
  then show "\<exists>e. load_registry w = Inl e \<and> (\<forall>table argv. cm w table argv = ([], Thrown e))"
    by (simp add: cm_def)
next
  fix reg
  assume "load_registry w = Inr reg \<and> n \<in> set (core_names @ nonCore_names)"
  with load_registry_entry show "\<exists>p. new_Pkg w n = Inr p \<and> packageNames reg n = Some p"
    by blast
qed

theorem several_sources_main_witness:
  "new_Pkg demo_world ''view'' =
     Inr \<lparr>name = ''view'', dir = ''/cm/view'', main = Some ''/cm/view/src/index.ts''\<rparr>
   \<and> new_Pkg demo_world ''lang-python'' =
     Inr \<lparr>name = ''lang-python'', dir = ''/cm/lang-python'',
          main = Some ''/cm/lang-python/src/python.ts''\<rparr>
   \<and> new_Pkg broken_world ''lint'' = Inl (Error ''Couldn't find a main script for lint'')
   \<and> (\<exists>e. load_registry broken_world = Inl e \<and>
         cm broken_world (\<lambda>reg. sample_table) [''node'', ''cm'', ''packages''] = ([], Thrown e))"
proof -
  have v: "new_Pkg demo_world ''view'' =
     Inr \<lparr>name = ''view'', dir = ''/cm/view'', main = Some ''/cm/view/src/index.ts''\<rparr>"
    using several_sources_main[of "''view''" demo_world "[''index.ts'', ''other.ts'']"
        "[''index.ts'', ''other.ts'']"]
    by (simp add: demo_world_def ts_file_re_test_def)
  have p: "new_Pkg demo_world ''lang-python'' =
     Inr \<lparr>name = ''lang-python'', dir = ''/cm/lang-python'',
          main = Some ''/cm/lang-python/src/python.ts''\<rparr>"
    using several_sources_main[of "''lang-python''" demo_world "[''python.ts'', ''helpers.ts'']"
        "[''python.ts'', ''helpers.ts'']"]
    by (simp add: demo_world_def ts_file_re_test_def strip_kind_prefix_def)
  have a: "''lint'' \<noteq> ''legacy-modes''" by simp
  have b: "readdirSync broken_world (join [join [root broken_world, ''lint''], ''src'']) =
      Inr [''rules.ts'', ''report.ts'']"
    by (simp add: broken_world_def demo_world_def)
  have c: "[''rules.ts'', ''report.ts''] = filter ts_file_re_test [''rules.ts'', ''report.ts'']"
    by (simp add: ts_file_re_test_def)
  have d: "length [''rules.ts'', ''report.ts''] > 1" by simp
  have m: "''index.ts'' \<notin> set [''rules.ts'', ''report.ts''] \<and>
      strip_kind_prefix ''lint'' @ ''.ts'' \<notin> set [''rules.ts'', ''report.ts'']"
    by (simp add: strip_kind_prefix_def)
  have n: "''lint'' \<in> set (core_names @ nonCore_names)" by (simp add: core_names_def)
  from several_sources_main[OF a b c d] m n
  have "new_Pkg broken_world ''lint'' = Inl (Error ''Couldn't find a main script for lint'')
     \<and> (\<exists>e. load_registry broken_world = Inl e \<and>
         cm broken_world (\<lambda>reg. sample_table) [''node'', ''cm'', ''packages''] = ([], Thrown e))"
    by auto
  with v p show ?thesis by simp
qed

text \<open>
  C5, as the code has it. The source directory of \<open>legacy-modes\<close> may hold exactly one
  recognised source file, and the package has no main file all the same.
\<close>

theorem legacy_modes_single_counterexample:
  "readdirSync demo_world (join [join [root demo_world, ''legacy-modes''], ''src'']) =
     Inr [''main.ts'', ''.hidden.ts'', ''README.md'']
   \<and> filter ts_file_re_test [''main.ts'', ''.hidden.ts'', ''README.md''] = [''main.ts'']
   \<and> new_Pkg demo_world ''legacy-modes'' =
       Inr \<lparr>name = ''legacy-modes'', dir = ''/cm/legacy-modes'', main = None\<rparr>"
  by (simp add: new_Pkg_def demo_world_def ts_file_re_test_def)

text \<open>
  C5, amended. For every package other than \<open>legacy-modes\<close> whose source directory
  lists exactly one recognised source file (a name without a dot before its final
  \<open>.ts\<close>), that file is the package's main file, whatever it is called, and the registry
  holds the package with it.
\<close>

theorem single_source_is_main:
  assumes "n \<noteq> ''legacy-modes''"
    and "readdirSync w (join [join [root w, n], ''src'']) = Inr listing"
    and "filter ts_file_re_test listing = [f]"
  shows "new_Pkg w n =
           Inr \<lparr>name = n, dir = join [root w, n], main = Some (join [join [root w, n], ''src'', f])\<rparr>
       \<and> (\<forall>reg. load_registry w = Inr reg \<and> n \<in> set (core_names @ nonCore_names) \<longrightarrow>
             packageNames reg n =
               Some \<lparr>name = n, dir = join [root w, n],
                     main = Some (join [join [root w, n], ''src'', f])\<rparr>)"
proof -
  from assms(3) have "f \<in> set (filter ts_file_re_test listing)" by simp
  then have "f \<noteq> []" using ts_file_nonempty by simp
  with assms have c: "new_Pkg w n =
           Inr \<lparr>name = n, dir = join [root w, n], main = Some (join [join [root w, n], ''src'', f])\<rparr>"
    by (simp add: new_Pkg_def Let_def)
  with load_registry_entry show ?thesis by fastforce
qed

theorem single_source_is_main_witness:
  "new_Pkg demo_world ''state'' =
     Inr \<lparr>name = ''state'', dir = ''/cm/state'', main = Some ''/cm/state/src/main.ts''\<rparr>
   \<and> (\<exists>reg. load_registry demo_world = Inr reg \<and>
        packageNames reg ''state'' =
          Some \<lparr>name = ''state'', dir = ''/cm/state'', main = Some ''/cm/state/src/main.ts''\<rparr>)"
proof -
  from demo_registry obtain reg where h: "load_registry demo_world = Inr reg" ..
  have a: "readdirSync demo_world (join [join [root demo_world, ''state''], ''src'']) =
      Inr [''main.ts'', ''.hidden.ts'', ''README.md'']"
    by (simp add: demo_world_def)
  have b: "filter ts_file_re_test [''main.ts'', ''.hidden.ts'', ''README.md''] = [''main.ts'']"
    by (simp add: ts_file_re_test_def)
  have c: "''state'' \<noteq> ''legacy-modes''" by simp
  have d: "''state'' \<in> set (core_names @ nonCore_names)" by (simp add: core_names_def)
  from single_source_is_main[OF c a b] h d show ?thesis
    by (auto simp: demo_world_def)
qed

section \<open>The batch build, verified\<close>

text \<open>
  C6. Every effect of \<open>build\<close> up to the end of \<open>tsBuild\<close> is a console message, none
  a call of the bundler or a write; the effects of the bundle stage all come after them.
  When the emit was skipped there is nothing after them: \<open>build\<close> ends with status 1 and
  no descriptor has been handed to the bundler.
\<close>

theorem build_compile_before_bundle:
  "\<exists>rest.
     fst (build reg ts rollup secs1 secs2) =
       ConsoleInfo ''Running TypeScript compiler...'' # fst (tsBuild reg ts) @ rest
     \<and> (\<forall>e\<in>set (ConsoleInfo ''Running TypeScript compiler...'' # fst (tsBuild reg ts)).
           \<not> is_bundle_event e)
     \<and> (emitSkipped (program_emit ts (customResolve (packageNames reg) (resolveModuleName ts)))
          \<longrightarrow> rest = [] \<and> snd (build reg ts rollup secs1 secs2) = Exited 1 \<and>
              (\<forall>e\<in>set (fst (build reg ts rollup secs1 secs2)). \<not> is_bundle_event e))"
  by (auto simp add: tsBuild_def build_def Let_def error_def then_run_def split: outcome.splits)

theorem build_compile_before_bundle_witness:
  "\<exists>reg. load_registry demo_world = Inr reg \<and>
     build reg (sample_ts True) sample_rollup ''0.10'' ''0.20'' =
       ([ConsoleInfo ''Running TypeScript compiler...'',
         ConsoleError ''error: type mismatch'', ConsoleError ''error: cannot write file'',
         ConsoleError ''TS build failed''], Exited 1)"
proof -
  from demo_registry obtain reg where h: "load_registry demo_world = Inr reg" ..
  have t: "tsBuild reg (sample_ts True) =
     ([ConsoleError ''error: type mismatch'', ConsoleError ''error: cannot write file'',
       ConsoleError ''TS build failed''], Exited 1)"
    by (simp add: tsBuild_def sample_ts_def error_def Let_def)
  have s: "emitSkipped (program_emit (sample_ts True)
             (customResolve (packageNames reg) (resolveModuleName (sample_ts True))))"
    by (simp add: sample_ts_def)
  from build_compile_before_bundle[of reg "sample_ts True" sample_rollup "''0.10''" "''0.20''"] s t
  have "build reg (sample_ts True) sample_rollup ''0.10'' ''0.20'' =
       ([ConsoleInfo ''Running TypeScript compiler...'',
         ConsoleError ''error: type mismatch'', ConsoleError ''error: cannot write file'',
         ConsoleError ''TS build failed''], Exited 1)"
    by (auto simp: prod_eq_iff)
  with h show ?thesis by blast
qed

section \<open>The bundle stage, verified\<close>

text \<open>
  C7. When the compile stage has not halted the build and the bundler does for every
  descriptor what the script expects of it, \<open>build\<close> returns, and for every buildable
  package its effects hold, in this order, two runs of consecutive effects. The first is
  the call of the bundler on the code descriptor of the package, whose output file is
  \<open>dist/index.js\<close> in the package directory with a source map asked for, then the
  \<open>mkdir\<close> of that \<open>dist\<close> directory (with \<open>recursive\<close>, so an existing directory is
  left alone), then, for each file of the bundler's result in turn, the write of its
  contents under its name in \<open>dist\<close>, followed at once by the write of its source map
  under that name with \<open>.map\<close> added when it has one. Among these files is
  \<open>index.js\<close>, with contents and a map. The second run is the same for the declaration
  descriptor, whose output file is \<open>dist/index.d.ts\<close>, and among the files written is
  \<open>index.d.ts\<close>.
\<close>

theorem bundle_stage_outputs:
  assumes reg: "load_registry w = Inr reg"
    and emit: "\<not> emitSkipped (program_emit ts
                 (customResolve (packageNames reg) (resolveModuleName ts)))"
    and ok: "\<forall>cs. bundle_configs reg = Inr cs \<longrightarrow> (\<forall>c\<in>set cs. bundles_ok rollup c)"
    and p: "p \<in> set (buildPackages reg)"
  shows "\<exists>c d rc rd.
           rollupConfig p = Inr c \<and> rollupDeclConfig p = Inr d
         \<and> out_file (config_output c) = join [dir p, ''dist'', ''index.js'']
         \<and> sourcemap (config_output c)
         \<and> out_file (config_output d) = join [dir p, ''dist'', ''index.d.ts'']
         \<and> rollup c = Inr rc \<and> rollup d = Inr rd
         \<and> (\<exists>f\<in>set rc. fileName f = ''index.js'' \<and> file_content f \<noteq> None \<and> file_map f \<noteq> None)
         \<and> (\<exists>f\<in>set rd. fileName f = ''index.d.ts'' \<and> file_content f \<noteq> None)
         \<and> (\<exists>pre mid post.
               fst (build reg ts rollup secs1 secs2) =
                 pre @
                 Rollup (config_input c) (join [dir p, ''dist'', ''index.js'']) #
                 Mkdir (join [dir p, ''dist'']) #
                 concat (map (\<lambda>f. case file_content f of
                                      None \<Rightarrow> []
                                    | Some t \<Rightarrow>
                                        WriteFile (join [dir p, ''dist'', fileName f]) t #
                                        (case file_map f of
                                           None \<Rightarrow> []
                                         | Some m \<Rightarrow>
                                             [WriteFile (join [dir p, ''dist'', fileName f @ ''.map'']) m]))
                             rc) @
                 mid @
                 Rollup (config_input d) (join [dir p, ''dist'', ''index.d.ts'']) #
                 Mkdir (join [dir p, ''dist'']) #
                 concat (map (\<lambda>f. case file_content f of
                                      None \<Rightarrow> []
                                    | Some t \<Rightarrow>
                                        WriteFile (join [dir p, ''dist'', fileName f]) t #
                                        (case file_map f of
                                           None \<Rightarrow> []
                                         | Some m \<Rightarrow>
                                             [WriteFile (join [dir p, ''dist'', fileName f @ ''.map'']) m]))
                             rd) @
                 post)
         \<and> snd (build reg ts rollup secs1 secs2) = Returned"
proof -
  let ?W = "\<lambda>r. concat (map (\<lambda>f. case file_content f of
                                      None \<Rightarrow> []
                                    | Some t \<Rightarrow>
                                        WriteFile (join [dir p, ''dist'', fileName f]) t #
                                        (case file_map f of
                                           None \<Rightarrow> []
                                         | Some m \<Rightarrow>
                                             [WriteFile (join [dir p, ''dist'', fileName f @ ''.map'']) m]))
                             r)"
  from bundle_configs_built[OF reg] obtain cs ds where
    cs: "map_exn rollupConfig (buildPackages reg) = Inr cs" and
    ds: "map_exn rollupDeclConfig (buildPackages reg) = Inr ds" and
    all: "bundle_configs reg = Inr (cs @ ds)" by blast
  from ok all have oks: "\<forall>c\<in>set (cs @ ds). bundles_ok rollup c" by blast
  from map_exn_split[OF cs p] obtain a c b where
    c: "cs = a @ c # b" "rollupConfig p = Inr c" by blast
  from map_exn_split[OF ds p] obtain a' d b' where
    d: "ds = a' @ d # b'" "rollupDeclConfig p = Inr d" by blast
  from c(2) have cf: "out_file (config_output c) = join [dir p, ''dist'', ''index.js'']"
      "sourcemap (config_output c)"
    by (auto simp: rollupConfig_def split: option.splits)
  from d(2) have df: "out_file (config_output d) = join [dir p, ''dist'', ''index.d.ts'']"
    by (auto simp: rollupDeclConfig_def split: option.splits)
  from oks c(1) have "bundles_ok rollup c" by simp
  with cf obtain rc fc where rc: "rollup c = Inr rc"
      "list_all (\<lambda>f. file_content f \<noteq> None) rc"
      "fc \<in> set rc" "fileName fc = ''index.js''" "file_map fc \<noteq> None"
    by (auto simp: bundles_ok_def basename_def list_ex_iff split: sum.splits)
  from oks d(1) have "bundles_ok rollup d" by simp
  with df obtain rd fd where rd: "rollup d = Inr rd"
      "list_all (\<lambda>f. file_content f \<noteq> None) rd"
      "fd \<in> set rd" "fileName fd = ''index.d.ts''"
    by (auto simp: bundles_ok_def basename_def list_ex_iff split: sum.splits)
  have dc: "dirname (join [dir p, ''dist'', ''index.js'']) = join [dir p, ''dist'']"
    and dd: "dirname (join [dir p, ''dist'', ''index.d.ts'']) = join [dir p, ''dist'']"
    by (simp_all add: dirname_def)
  have wc: "fst (write_outputs (join [dir p, ''dist'']) rc) = ?W rc"
    by (rule write_outputs_dist_trace[OF rc(2)])
  have wd: "fst (write_outputs (join [dir p, ''dist'']) rd) = ?W rd"
    by (rule write_outputs_dist_trace[OF rd(2)])
  have l1: "cs @ ds = a @ c # (b @ a' @ d # b')" using c(1) d(1) by simp
  have o2: "\<forall>x\<in>set ((b @ a') @ d # b'). bundles_ok rollup x" using oks l1 by auto
  have o1: "\<forall>x\<in>set (a @ c # (b @ a' @ d # b')). bundles_ok rollup x" using oks l1 by simp
  have t2: "fst (runRollup_loop rollup ((b @ a') @ d # b')) =
      fst (runRollup_loop rollup (b @ a')) @
      Rollup (config_input d) (join [dir p, ''dist'', ''index.d.ts'']) #
      Mkdir (join [dir p, ''dist'']) # ?W rd @ fst (runRollup_loop rollup b')"
    using runRollup_loop_split[OF o2 rd(1)] by (simp only: df dd wd)
  have t1: "fst (runRollup_loop rollup (cs @ ds)) =
      fst (runRollup_loop rollup a) @
      Rollup (config_input c) (join [dir p, ''dist'', ''index.js'']) #
      Mkdir (join [dir p, ''dist'']) # ?W rc @ fst (runRollup_loop rollup (b @ a' @ d # b'))"
    using runRollup_loop_split[OF o1 rc(1)] by (simp only: cf dc wc l1)
  have ret: "snd (runRollup_loop rollup (cs @ ds)) = Returned"
    by (rule runRollup_loop_returns[OF oks])
  have t: "tsBuild reg ts =
      (map (\<lambda>d. ConsoleError (formatDiagnostic ts d))
         (getPreEmitDiagnostics ts (customResolve (packageNames reg) (resolveModuleName ts)) @
          diagnostics (program_emit ts (customResolve (packageNames reg) (resolveModuleName ts)))),
       Returned)"
    using emit by (simp add: tsBuild_def Let_def)
  let ?pre0 = "ConsoleInfo ''Running TypeScript compiler...'' # fst (tsBuild reg ts) @
      [ConsoleInfo (''Done in '' @ secs1 @ ''s''), ConsoleInfo ''Building bundles...'']"
  have b: "fst (build reg ts rollup secs1 secs2) =
      ?pre0 @ fst (runRollup_loop rollup (cs @ ds)) @ [ConsoleLog (''Done in '' @ secs2 @ ''s'')]"
    and s: "snd (build reg ts rollup secs1 secs2) = Returned"
    using ret by (simp_all add: build_def t all runRollup_def then_run_def)
  have tr: "fst (build reg ts rollup secs1 secs2) =
      (?pre0 @ fst (runRollup_loop rollup a)) @
      Rollup (config_input c) (join [dir p, ''dist'', ''index.js'']) #
      Mkdir (join [dir p, ''dist'']) # ?W rc @
      fst (runRollup_loop rollup (b @ a')) @
      Rollup (config_input d) (join [dir p, ''dist'', ''index.d.ts'']) #
      Mkdir (join [dir p, ''dist'']) # ?W rd @
      (fst (runRollup_loop rollup b') @ [ConsoleLog (''Done in '' @ secs2 @ ''s'')])"
    using t2 by (simp only: b t1 append_assoc append_Cons)
  from rc(2) rc(3) have fcc: "file_content fc \<noteq> None" by (auto simp: list_all_iff)
  from rd(2) rd(3) have fdc: "file_content fd \<noteq> None" by (auto simp: list_all_iff)
  from tr have ex: "\<exists>pre mid post. fst (build reg ts rollup secs1 secs2) =
      pre @ Rollup (config_input c) (join [dir p, ''dist'', ''index.js'']) #
      Mkdir (join [dir p, ''dist'']) # ?W rc @ mid @
      Rollup (config_input d) (join [dir p, ''dist'', ''index.d.ts'']) #
      Mkdir (join [dir p, ''dist'']) # ?W rd @ post" by blast
  from c(2) d(2) cf df rc(1) rd(1) rc(3,4,5) fcc rd(3,4) fdc ex s
  show ?thesis by blast
qed

theorem bundle_stage_outputs_witness:
  "\<exists>reg pre mid post.
     load_registry demo_world = Inr reg \<and>
     build reg (sample_ts False) sample_rollup ''0.10'' ''0.20'' =
       (pre @
        [Rollup ''/cm/state/src/main.js'' ''/cm/state/dist/index.js'',
         Mkdir ''/cm/state/dist'',
         WriteFile ''/cm/state/dist/index.js'' ''export {}'',
         WriteFile ''/cm/state/dist/index.js.map'' ''mappings''] @
        mid @
        [Rollup ''/cm/state/src/main.d.ts'' ''/cm/state/dist/index.d.ts'',
         Mkdir ''/cm/state/dist'',
         WriteFile ''/cm/state/dist/index.d.ts'' ''export {}''] @
        post, Returned)"
proof -
  from demo_registry obtain reg where h: "load_registry demo_world = Inr reg" ..
  let ?P = "\<lparr>name = ''state'', dir = ''/cm/state'', main = Some ''/cm/state/src/main.ts''\<rparr>"
  have "''state'' \<in> set (core_names @ nonCore_names)" by (simp add: core_names_def)
  from load_registry_entry[OF h this] obtain p where
    p: "new_Pkg demo_world ''state'' = Inr p" "p \<in> set (packages reg)" by blast
  have "new_Pkg demo_world ''state'' = Inr ?P"
    by (simp add: new_Pkg_def demo_world_def ts_file_re_test_def)
  with p have "?P \<in> set (packages reg)" by simp
  then have b: "?P \<in> set (buildPackages reg)"
    using buildPackages_iff[OF h, of ?P] by simp
  have e: "\<not> emitSkipped (program_emit (sample_ts False)
             (customResolve (packageNames reg) (resolveModuleName (sample_ts False))))"
    by (simp add: sample_ts_def)
  have ok: "\<forall>cs. bundle_configs reg = Inr cs \<longrightarrow> (\<forall>c\<in>set cs. bundles_ok sample_rollup c)"
    by (simp add: bundles_ok_def sample_rollup_def file_content_def js_truthy_def)
  have r: "replace_ts_suffix ''/cm/state/src/main.ts'' ''.js'' = ''/cm/state/src/main.js''"
    "replace_ts_suffix ''/cm/state/src/main.ts'' ''.d.ts'' = ''/cm/state/src/main.d.ts''"
    by (simp_all add: replace_ts_suffix_def suffix_to_prefix)
  from bundle_stage_outputs[OF h e ok b, of "''0.10''" "''0.20''"]
  obtain pre mid post where
    "fst (build reg (sample_ts False) sample_rollup ''0.10'' ''0.20'') =
       pre @
        [Rollup ''/cm/state/src/main.js'' ''/cm/state/dist/index.js'',
         Mkdir ''/cm/state/dist'',
         WriteFile ''/cm/state/dist/index.js'' ''export {}'',
         WriteFile ''/cm/state/dist/index.js.map'' ''mappings''] @
        mid @
        [Rollup ''/cm/state/src/main.d.ts'' ''/cm/state/dist/index.d.ts'',
         Mkdir ''/cm/state/dist'',
         WriteFile ''/cm/state/dist/index.d.ts'' ''export {}''] @
        post"
    and "snd (build reg (sample_ts False) sample_rollup ''0.10'' ''0.20'') = Returned"
    by (auto simp: rollupConfig_def rollupDeclConfig_def sample_rollup_def basename_def
          r file_content_def js_truthy_def)
  with h show ?thesis by (auto simp: prod_eq_iff)
qed

section \<open>Declaration bundling, verified\<close>

text \<open>
  C8. The descriptor of a declaration bundle has a warning handler, and that handler passes
  a warning on unless its code is \<open>CIRCULAR_DEPENDENCY\<close> or \<open>UNUSED_EXTERNAL_IMPORT\<close>:
  it drops a warning exactly when the code is one of the two, and hands on the warning
  itself otherwise.
\<close>

theorem decl_onwarn_filter:
  assumes "rollupDeclConfig pkg = Inr c"
  shows "\<exists>h. config_onwarn c = Some h \<and>
           (\<forall>w. (h w = [] \<longleftrightarrow> warning_code w = Some ''CIRCULAR_DEPENDENCY'' \<or>
                              warning_code w = Some ''UNUSED_EXTERNAL_IMPORT'')
              \<and> (h w \<noteq> [] \<longrightarrow> h w = [w]))"
  using assms by (auto simp: rollupDeclConfig_def decl_onwarn_def split: option.splits)

theorem decl_onwarn_filter_witness:
  "\<exists>c h. rollupDeclConfig sample_pkg = Inr c \<and> config_onwarn c = Some h \<and>
     h \<lparr>warning_code = Some ''CIRCULAR_DEPENDENCY'', warning_message = ''a -> b -> a''\<rparr> = [] \<and>
     h \<lparr>warning_code = Some ''UNUSED_EXTERNAL_IMPORT'', warning_message = ''x''\<rparr> = [] \<and>
     h \<lparr>warning_code = Some ''EMPTY_BUNDLE'', warning_message = ''y''\<rparr> =
       [\<lparr>warning_code = Some ''EMPTY_BUNDLE'', warning_message = ''y''\<rparr>] \<and>
     h \<lparr>warning_code = None, warning_message = ''z''\<rparr> = [\<lparr>warning_code = None, warning_message = ''z''\<rparr>]"
proof -
  obtain c where c: "rollupDeclConfig sample_pkg = Inr c"
    by (simp add: rollupDeclConfig_def sample_pkg_def)
  from decl_onwarn_filter[OF c] obtain h where h: "config_onwarn c = Some h"
    and f: "\<And>w. (h w = [] \<longleftrightarrow> warning_code w = Some ''CIRCULAR_DEPENDENCY'' \<or>
                              warning_code w = Some ''UNUSED_EXTERNAL_IMPORT'')
              \<and> (h w \<noteq> [] \<longrightarrow> h w = [w])"
    by blast
  from f[of "\<lparr>warning_code = Some ''CIRCULAR_DEPENDENCY'', warning_message = ''a -> b -> a''\<rparr>"]
    f[of "\<lparr>warning_code = Some ''UNUSED_EXTERNAL_IMPORT'', warning_message = ''x''\<rparr>"]
    f[of "\<lparr>warning_code = Some ''EMPTY_BUNDLE'', warning_message = ''y''\<rparr>"]
    f[of "\<lparr>warning_code = None, warning_message = ''z''\<rparr>"] c h
  show ?thesis by simp
qed

section \<open>The dev server, verified\<close>

text \<open>
  C9, as the code has it. The claim lets the server listen on all interfaces whenever the
  variable \<open>OPEN\<close> is set. Set to the empty string it is not truthy, and the server
  listens on the loopback address.
\<close>

theorem startServer_empty_OPEN_counterexample:
  "env_OPEN (demo_world\<lparr>env_OPEN := Some []\<rparr>) = Some [] \<and>
   listen_host (fst (startServer (demo_world\<lparr>env_OPEN := Some []\<rparr>) sample_libs)) = Some ''127.0.0.1''"
  by (simp add: startServer_def demo_world_def js_truthy_def Let_def)

text \<open>
  C9, amended. The server listens on port 8090, on \<open>127.0.0.1\<close> unless \<open>OPEN\<close> is set
  to a non-empty value, and then on the unspecified address. A request is answered by the
  module server if it takes the request, otherwise by the static file handler if it has
  the file, and otherwise with status 404.
\<close>

theorem startServer_behaviour:
  "let srv = fst (startServer w libs); serve = join [root w, ''demo'']
   in listen_port srv = 8090
    \<and> (env_OPEN w = None \<or> env_OPEN w = Some [] \<longrightarrow> listen_host srv = Some ''127.0.0.1'')
    \<and> (\<forall>v. env_OPEN w = Some v \<and> v \<noteq> [] \<longrightarrow> listen_host srv = None)
    \<and> (\<forall>r. moduleserver libs serve 2 req = Some r \<longrightarrow> on_request srv req = r)
    \<and> (\<forall>r. moduleserver libs serve 2 req = None \<and> serve_static libs serve req = Some r
          \<longrightarrow> on_request srv req = r)
    \<and> (moduleserver libs serve 2 req = None \<and> serve_static libs serve req = None
          \<longrightarrow> on_request srv req = \<lparr>statusCode = 404, body = ''Not found''\<rparr>)"
  by (auto simp: startServer_def Let_def js_truthy_def split: option.splits)

theorem startServer_behaviour_witness:
  "listen_port (fst (startServer demo_world sample_libs)) = 8090
   \<and> listen_host (fst (startServer demo_world sample_libs)) = Some ''127.0.0.1''
   \<and> listen_host (fst (startServer (demo_world\<lparr>env_OPEN := Some ''1''\<rparr>) sample_libs)) = None
   \<and> on_request (fst (startServer demo_world sample_libs)) ''/_m/view/index.js'' =
        \<lparr>statusCode = 200, body = ''module''\<rparr>
   \<and> on_request (fst (startServer demo_world sample_libs)) ''/index.html'' =
        \<lparr>statusCode = 200, body = ''page''\<rparr>
   \<and> on_request (fst (startServer demo_world sample_libs)) ''/missing'' =
        \<lparr>statusCode = 404, body = ''Not found''\<rparr>"
  using startServer_behaviour[of demo_world sample_libs "''/_m/view/index.js''"]
    startServer_behaviour[of "demo_world\<lparr>env_OPEN := Some ''1''\<rparr>" sample_libs "''/index.html''"]
    startServer_behaviour[of demo_world sample_libs "''/index.html''"]
    startServer_behaviour[of demo_world sample_libs "''/missing''"]
  by (simp add: Let_def demo_world_def sample_libs_def)

section \<open>Command dispatch, verified\<close>



end
